theory Spec2Isabelle
  imports Main "HOL-Library.Sublist" "HOL-Library.AList"
begin

section \<open>The protoc-compatible flag resolution of buf (flags.go)\<close>

text \<open>
  The development embeds \<^verbatim>\<open>internal/buf/cmd/buf/internal/protoc/flags.go\<close>.
  Go strings are byte strings, hence \<open>string\<close>. A Go map is an association list with
  distinct keys, read with \<open>map_of\<close> and written with \<open>AList.update\<close>. Every function that
  can return a non-nil error returns \<open>error + 'a\<close>, with \<open>Inl\<close> for the error.
\<close>

subsection \<open>Errors\<close>

text \<open>
  One constructor for each error value the code can return. The constructors are named after
  the Go constructor functions (\<^verbatim>\<open>newDuplicateOutError\<close>, ...), which are declared in
  another file of the package. \<open>ReadFileError\<close> stands for the error of
  \<^verbatim>\<open>ioutil.ReadFile\<close>, \<open>FlagParseError\<close> for the error of \<^verbatim>\<open>flagSet.Parse\<close>, and
  \<open>IndexOutOfRange\<close> for the run-time panic of a slice read out of range.
\<close>

datatype error =
    ArgEmpty
  | NoInputFiles
  | RecursiveReference string
  | OutMultipleColons string string
  | DuplicateOut string
  | DuplicateOpt string
  | PluginPathValueEmpty
  | PluginPathValueInvalid string
  | PluginPathNameInvalidPrefix string
  | DuplicatePluginPath string
  | CannotSpecifyOptWithoutOut string
  | CannotSpecifyPathWithoutOut string
  | EncodeNotSupported
  | DecodeNotSupported
  | DecodeRawNotSupported
  | DescriptorSetInNotSupported
  | ReadFileError string
  | FlagParseError string
  | IndexOutOfRange

subsection \<open>The functions of the Go standard library that the code calls\<close>

definition HasPrefix :: "string \<Rightarrow> string \<Rightarrow> bool" where
  "HasPrefix s p = prefix p s"

definition TrimPrefix :: "string \<Rightarrow> string \<Rightarrow> string" where
  "TrimPrefix s p = (if HasPrefix s p then drop (length p) s else s)"

definition HasSuffix :: "string \<Rightarrow> string \<Rightarrow> bool" where
  "HasSuffix s x = suffix x s"

definition TrimSuffix :: "string \<Rightarrow> string \<Rightarrow> string" where
  "TrimSuffix s x = (if HasSuffix s x then take (length s - length x) s else s)"

text \<open>\<^verbatim>\<open>strings.Replace(s, old, new, -1)\<close> for one-byte \<open>old\<close> and \<open>new\<close>.\<close>

definition ReplaceAll :: "string \<Rightarrow> char \<Rightarrow> char \<Rightarrow> string" where
  "ReplaceAll s old new = map (\<lambda>c. if c = old then new else c) s"

text \<open>
  \<^verbatim>\<open>strings.Split(s, sep)\<close> for a one-byte separator: the pieces between the separators, one
  more than there are separators.
\<close>

fun Split :: "string \<Rightarrow> char \<Rightarrow> string list" where
  "Split [] sep = [[]]"
| "Split (c # s) sep =
     (if c = sep then [] # Split s sep
      else (case Split s sep of [] \<Rightarrow> [[c]] | x # xs \<Rightarrow> (c # x) # xs))"

text \<open>
  \<^verbatim>\<open>strings.SplitN(s, sep, 2)\<close> for a one-byte separator: cut at the first separator, if
  there is one.
\<close>

definition SplitN2 :: "string \<Rightarrow> char \<Rightarrow> string list" where
  "SplitN2 s sep =
     (if sep \<in> set s then [takeWhile (\<lambda>c. c \<noteq> sep) s, tl (dropWhile (\<lambda>c. c \<noteq> sep) s)]
      else [s])"

text \<open>
  \<^verbatim>\<open>filepath.Base\<close> on a system whose separator is the slash: the empty path gives a dot,
  trailing slashes are dropped, then what follows the last slash is kept; a path of slashes
  only gives one slash.
\<close>

definition stripTrailingSlashes :: "string \<Rightarrow> string" where
  "stripTrailingSlashes p = rev (dropWhile (\<lambda>c. c = CHR ''/'') (rev p))"

definition Base :: "string \<Rightarrow> string" where
  "Base path =
     (if path = [] then ''.''
      else let p = stripTrailingSlashes path;
               e = rev (takeWhile (\<lambda>c. c \<noteq> CHR ''/'') (rev p))
           in if e = [] then ''/'' else e)"

subsection \<open>The data of flags.go\<close>

definition pluginFakeFlagName :: string where
  "pluginFakeFlagName = ''protoc_plugin_fake''"

definition defaultIncludeDirPaths :: "string list" where
  "defaultIncludeDirPaths = [''.'']"

definition defaultErrorFormat :: string where
  "defaultErrorFormat = ''gcc''"

record flags =
  IncludeDirPaths :: "string list"
  IncludeImports :: bool
  IncludeSourceInfo :: bool
  PrintFreeFieldNumbers :: bool
  Output :: string
  ErrorFormat :: string

text \<open>
  Modelled from the spec: the struct \<^verbatim>\<open>pluginInfo\<close> and its constructor
  \<^verbatim>\<open>newPluginInfo\<close> are declared outside the files at hand. The spec gives a plugin an
  output location, an options string and an executable path; the code reads and writes the
  fields \<^verbatim>\<open>Out\<close>, \<^verbatim>\<open>Opt\<close> and \<^verbatim>\<open>Path\<close> and tests each against the empty string,
  which is what a fresh one holds.
\<close>

record pluginInfo =
  Out :: string
  Opt :: string
  Path :: string

definition newPluginInfo :: pluginInfo where
  "newPluginInfo = \<lparr>Out = [], Opt = [], Path = []\<rparr>"

record pluginValue =
  OutIndex :: int
  OptIndex :: int

definition newPluginValue :: pluginValue where
  "newPluginValue = \<lparr>OutIndex = - 1, OptIndex = - 1\<rparr>"

text \<open>The embedded struct \<^verbatim>\<open>flags\<close> is the field \<open>flags\<close>.\<close>

record env =
  flags :: flags
  PluginNameToPluginInfo :: "(string \<times> pluginInfo) list"
  FilePaths :: "string list"

record flagsBuilder =
  flags :: flags
  PluginPathValues :: "string list"
  Encode :: string
  Decode :: string
  DecodeRaw :: bool
  DescriptorSetIn :: "string list"
  pluginFake :: "string list"
  pluginNameToValue :: "(string \<times> pluginValue) list"

text \<open>
  \<^verbatim>\<open>newFlagsBuilder\<close> followed by \<^verbatim>\<open>Bind\<close>: every field holds the default that
  \<^verbatim>\<open>Bind\<close> registers for it.
\<close>

definition newFlagsBuilder :: flagsBuilder where
  "newFlagsBuilder =
     \<lparr>flags = \<lparr>IncludeDirPaths = [], IncludeImports = False, IncludeSourceInfo = False,
               PrintFreeFieldNumbers = False, Output = [], ErrorFormat = []\<rparr>,
      PluginPathValues = [], Encode = [], Decode = [], DecodeRaw = False,
      DescriptorSetIn = [], pluginFake = [], pluginNameToValue = []\<rparr>"

subsection \<open>Normalize and pluginFakeParse\<close>

definition pluginFakeParse :: "flagsBuilder \<Rightarrow> string \<Rightarrow> string \<Rightarrow> bool \<Rightarrow> flagsBuilder" where
  "pluginFakeParse f name sfx isOut =
     (let pluginName = TrimSuffix name sfx;
          pv = (case map_of (pluginNameToValue f) pluginName of
                  None \<Rightarrow> newPluginValue
                | Some v \<Rightarrow> v);
          index = int (length (pluginFake f));
          pv' = (if isOut then pv\<lparr>OutIndex := index\<rparr> else pv\<lparr>OptIndex := index\<rparr>)
      in f\<lparr>pluginNameToValue := AList.update pluginName pv' (pluginNameToValue f)\<rparr>)"

text \<open>\<open>Normalize\<close> returns the builder it has changed and the normalized name.\<close>

definition Normalize :: "flagsBuilder \<Rightarrow> string \<Rightarrow> flagsBuilder \<times> string" where
  "Normalize f name =
     (if name \<noteq> ''descriptor_set_out'' \<and> HasSuffix name ''_out''
      then (pluginFakeParse f name ''_out'' True, pluginFakeFlagName)
      else if HasSuffix name ''_opt''
      then (pluginFakeParse f name ''_opt'' False, pluginFakeFlagName)
      else (f, ReplaceAll name (CHR ''-'') (CHR ''_'')))"

text \<open>
  Modelled from the spec: the flag parser (pflag) is not part of the repository. Of what it
  does with one occurrence \<^verbatim>\<open>--name=value\<close>, the spec says that the name is normalized
  and that every plugin directive appends exactly one value to the shared sequence of raw
  values. \<open>setFlag\<close> is that step for the capture slot; a flag normalized to another name
  binds a field this function leaves alone.
\<close>

definition setFlag :: "flagsBuilder \<Rightarrow> string \<Rightarrow> string \<Rightarrow> flagsBuilder" where
  "setFlag f name val =
     (case Normalize f name of
        (f', n) \<Rightarrow> if n = pluginFakeFlagName then f'\<lparr>pluginFake := pluginFake f' @ [val]\<rparr> else f')"

subsection \<open>parsePluginNameToPluginInfo\<close>

text \<open>\<^verbatim>\<open>f.pluginFake[i]\<close>: a read out of range panics.\<close>

definition pluginFakeAt :: "flagsBuilder \<Rightarrow> int \<Rightarrow> error + string" where
  "pluginFakeAt f i =
     (if 0 \<le> i \<and> i < int (length (pluginFake f)) then Inr (pluginFake f ! nat i)
      else Inl IndexOutOfRange)"

text \<open>The entry of a plugin in the table, created when absent.\<close>

definition getPluginInfo :: "(string \<times> pluginInfo) list \<Rightarrow> string \<Rightarrow> pluginInfo" where
  "getPluginInfo t pluginName =
     (case map_of t pluginName of None \<Rightarrow> newPluginInfo | Some i \<Rightarrow> i)"

text \<open>The branch \<^verbatim>\<open>if pluginValue.OutIndex >= 0\<close> of the first loop.\<close>

definition parseOut ::
  "flagsBuilder \<Rightarrow> string \<Rightarrow> pluginValue \<Rightarrow> (string \<times> pluginInfo) list
     \<Rightarrow> error + (string \<times> pluginInfo) list" where
  "parseOut f pluginName pv t =
     (if OutIndex pv \<ge> 0 then
        (case pluginFakeAt f (OutIndex pv) of
           Inl e \<Rightarrow> Inl e
         | Inr out \<Rightarrow>
            (case (case Split out (CHR '':'') of
                     [s0] \<Rightarrow> Inr (out, [])
                   | [s0, s1] \<Rightarrow> Inr (s1, s0)
                   | _ \<Rightarrow> Inl (OutMultipleColons pluginName out)) of
               Inl e \<Rightarrow> Inl e
             | Inr (out', opt) \<Rightarrow>
                 (let i = getPluginInfo t pluginName in
                  if Out i \<noteq> [] then Inl (DuplicateOut pluginName)
                  else (let i1 = i\<lparr>Out := out'\<rparr> in
                        if opt \<noteq> [] then
                          (if Opt i1 \<noteq> [] then Inl (DuplicateOpt pluginName)
                           else Inr (AList.update pluginName (i1\<lparr>Opt := opt\<rparr>) t))
                        else Inr (AList.update pluginName i1 t)))))
      else Inr t)"

text \<open>The branch \<^verbatim>\<open>if pluginValue.OptIndex >= 0\<close> of the first loop.\<close>

definition parseOpt ::
  "flagsBuilder \<Rightarrow> string \<Rightarrow> pluginValue \<Rightarrow> (string \<times> pluginInfo) list
     \<Rightarrow> error + (string \<times> pluginInfo) list" where
  "parseOpt f pluginName pv t =
     (if OptIndex pv \<ge> 0 then
        (let i = getPluginInfo t pluginName in
         if Opt i \<noteq> [] then Inl (DuplicateOpt pluginName)
         else (case pluginFakeAt f (OptIndex pv) of
                 Inl e \<Rightarrow> Inl e
               | Inr opt \<Rightarrow> Inr (AList.update pluginName (i\<lparr>Opt := opt\<rparr>) t)))
      else Inr t)"

text \<open>
  The first loop, over \<^verbatim>\<open>f.pluginNameToValue\<close>. Go visits a map in an order it does not
  specify; the loop visits the association list in its order, and the theorems about it hold
  for every list, hence for every order.
\<close>

fun parseValues ::
  "flagsBuilder \<Rightarrow> (string \<times> pluginValue) list \<Rightarrow> (string \<times> pluginInfo) list
     \<Rightarrow> error + (string \<times> pluginInfo) list" where
  "parseValues f [] t = Inr t"
| "parseValues f ((pluginName, pv) # rest) t =
     (case parseOut f pluginName pv t of
        Inl e \<Rightarrow> Inl e
      | Inr t1 \<Rightarrow>
         (case parseOpt f pluginName pv t1 of
            Inl e \<Rightarrow> Inl e
          | Inr t2 \<Rightarrow> parseValues f rest t2))"

text \<open>The second loop, over \<^verbatim>\<open>f.PluginPathValues\<close>.\<close>

fun parsePaths ::
  "string list \<Rightarrow> (string \<times> pluginInfo) list \<Rightarrow> error + (string \<times> pluginInfo) list" where
  "parsePaths [] t = Inr t"
| "parsePaths (pluginPathValue # rest) t =
     (case (case SplitN2 pluginPathValue (CHR ''='') of
              [] \<Rightarrow> Inl PluginPathValueEmpty
            | [s0] \<Rightarrow> Inr (Base s0, s0)
            | [s0, s1] \<Rightarrow> Inr (s0, s1)
            | _ \<Rightarrow> Inl (PluginPathValueInvalid pluginPathValue)) of
        Inl e \<Rightarrow> Inl e
      | Inr (pluginName, pluginPath) \<Rightarrow>
          if \<not> HasPrefix pluginName ''protoc-gen-''
          then Inl (PluginPathNameInvalidPrefix pluginName)
          else (let pluginName' = TrimPrefix pluginName ''protoc-gen-'';
                    i = getPluginInfo t pluginName'
                in if Path i \<noteq> [] then Inl (DuplicatePluginPath pluginName')
                   else parsePaths rest (AList.update pluginName' (i\<lparr>Path := pluginPath\<rparr>) t)))"

definition parsePluginNameToPluginInfo ::
  "flagsBuilder \<Rightarrow> (string \<times> pluginInfo) list \<Rightarrow> error + (string \<times> pluginInfo) list" where
  "parsePluginNameToPluginInfo f t =
     (case parseValues f (pluginNameToValue f) t of
        Inl e \<Rightarrow> Inl e
      | Inr t' \<Rightarrow> parsePaths (PluginPathValues f) t')"

subsection \<open>merge and checkUnsupported\<close>

definition merge :: "flagsBuilder \<Rightarrow> flagsBuilder \<Rightarrow> flagsBuilder" where
  "merge f subFlagsBuilder =
     f\<lparr>flags :=
         \<lparr>IncludeDirPaths =
            IncludeDirPaths (flags f) @ IncludeDirPaths (flags subFlagsBuilder),
          IncludeImports =
            (if IncludeImports (flags subFlagsBuilder) then True
             else IncludeImports (flags f)),
          IncludeSourceInfo =
            (if IncludeSourceInfo (flags subFlagsBuilder) then True
             else IncludeSourceInfo (flags f)),
          PrintFreeFieldNumbers =
            (if PrintFreeFieldNumbers (flags subFlagsBuilder) then True
             else PrintFreeFieldNumbers (flags f)),
          Output =
            (if Output (flags subFlagsBuilder) \<noteq> [] then Output (flags subFlagsBuilder)
             else Output (flags f)),
          ErrorFormat =
            (if ErrorFormat (flags subFlagsBuilder) \<noteq> []
             then ErrorFormat (flags subFlagsBuilder)
             else ErrorFormat (flags f))\<rparr>,
       PluginPathValues := PluginPathValues f @ PluginPathValues subFlagsBuilder,
       Encode := (if Encode subFlagsBuilder \<noteq> [] then Encode subFlagsBuilder else Encode f),
       Decode := (if Decode subFlagsBuilder \<noteq> [] then Decode subFlagsBuilder else Decode f),
       DecodeRaw := (if DecodeRaw subFlagsBuilder then True else DecodeRaw f),
       DescriptorSetIn := DescriptorSetIn f @ DescriptorSetIn subFlagsBuilder\<rparr>"

definition checkUnsupported :: "flagsBuilder \<Rightarrow> error option" where
  "checkUnsupported f =
     (if Encode f \<noteq> [] then Some EncodeNotSupported
      else if Decode f \<noteq> [] then Some DecodeNotSupported
      else if DecodeRaw f then Some DecodeRawNotSupported
      else if length (DescriptorSetIn f) > 0 then Some DescriptorSetInNotSupported
      else None)"

subsection \<open>What the code takes from outside\<close>

text \<open>
  \<open>Files\<close> is the file system: the paths that \<^verbatim>\<open>ioutil.ReadFile\<close> can read, with
  their contents; every other path is a read error. \<open>TrimSpace\<close> is
  \<^verbatim>\<open>strings.TrimSpace\<close>. \<open>Parse path args\<close> is what the lines 276 to 282 produce: a
  fresh builder bound to a fresh flag set named \<open>path\<close>, with \<open>Normalize\<close> installed, after
  \<^verbatim>\<open>flagSet.Parse(args)\<close>, together with \<^verbatim>\<open>flagSet.Args()\<close>, or the error of the
  parser. \<open>RangeOrder\<close> is the order in which \<^verbatim>\<open>range\<close> visits the table of plugins in
  \<open>Build\<close>.
\<close>

record runtime =
  Files :: "(string \<times> string) list"
  TrimSpace :: "string \<Rightarrow> string"
  Parse :: "string \<Rightarrow> string list \<Rightarrow> error + (flagsBuilder \<times> string list)"
  RangeOrder :: "(string \<times> pluginInfo) list \<Rightarrow> (string \<times> pluginInfo) list"

definition ReadFile :: "runtime \<Rightarrow> string \<Rightarrow> error + string" where
  "ReadFile E path =
     (case map_of (Files E) path of None \<Rightarrow> Inl (ReadFileError path) | Some d \<Rightarrow> Inr d)"

text \<open>The lines 265 to 282: read the file, cut it into trimmed non-empty lines, parse them.\<close>

definition flagFilePathArgs :: "runtime \<Rightarrow> string \<Rightarrow> string list" where
  "flagFilePathArgs E d = filter (\<lambda>a. a \<noteq> []) (map (TrimSpace E) (Split d (CHR 0x0A)))"

definition readFlagFile :: "runtime \<Rightarrow> string \<Rightarrow> error + (flagsBuilder \<times> string list)" where
  "readFlagFile E flagFilePath =
     (case ReadFile E flagFilePath of
        Inl e \<Rightarrow> Inl e
      | Inr d \<Rightarrow> Parse E flagFilePath (flagFilePathArgs E d))"

subsection \<open>buildRec\<close>

text \<open>
  \<open>buildRec\<close> returns, beside the file paths, what the Go code leaves changed behind it:
  the receiver (changed by \<open>merge\<close>), the table of plugins and the set of seen argument
  files. \<open>buildRecLoop\<close> is the loop over \<^verbatim>\<open>args\<close>, with \<^verbatim>\<open>filePaths\<close> as it stands.
\<close>

function
  buildRec ::
    "runtime \<Rightarrow> flagsBuilder \<Rightarrow> string list \<Rightarrow> (string \<times> pluginInfo) list \<Rightarrow> string set
       \<Rightarrow> error + (flagsBuilder \<times> string list \<times> (string \<times> pluginInfo) list \<times> string set)"
and
  buildRecLoop ::
    "runtime \<Rightarrow> flagsBuilder \<Rightarrow> string list \<Rightarrow> string list \<Rightarrow> (string \<times> pluginInfo) list
       \<Rightarrow> string set
       \<Rightarrow> error + (flagsBuilder \<times> string list \<times> (string \<times> pluginInfo) list \<times> string set)"
where
  "buildRec E f args t seen =
     (case parsePluginNameToPluginInfo f t of
        Inl e \<Rightarrow> Inl e
      | Inr t' \<Rightarrow> buildRecLoop E f args [] t' seen)"
| "buildRecLoop E f [] filePaths t seen = Inr (f, filePaths, t, seen)"
| "buildRecLoop E f ([] # args) filePaths t seen = Inl ArgEmpty"
| "buildRecLoop E f ((c # flagFilePath) # args) filePaths t seen =
     (if c \<noteq> CHR ''@'' then buildRecLoop E f args (filePaths @ [c # flagFilePath]) t seen
      else if flagFilePath \<in> seen then Inl (RecursiveReference flagFilePath)
      else (case readFlagFile E flagFilePath of
              Inl e \<Rightarrow> Inl e
            | Inr (subFlagsBuilder, subArgs) \<Rightarrow>
               (case buildRec E subFlagsBuilder subArgs t (insert flagFilePath seen) of
                  Inl e \<Rightarrow> Inl e
                | Inr (sub', subFilePaths, t', seen') \<Rightarrow>
                    buildRecLoop E (merge f sub') args (filePaths @ subFilePaths) t' seen')))"
  by pat_completeness auto

subsection \<open>Build\<close>

text \<open>The loop over the table of plugins in \<open>Build\<close>, in the order it is given.\<close>

fun checkOuts :: "(string \<times> pluginInfo) list \<Rightarrow> error option" where
  "checkOuts [] = None"
| "checkOuts ((pluginName, i) # rest) =
     (if Out i = [] \<and> Opt i \<noteq> [] then Some (CannotSpecifyOptWithoutOut pluginName)
      else if Out i = [] \<and> Path i \<noteq> [] then Some (CannotSpecifyPathWithoutOut pluginName)
      else checkOuts rest)"

definition Build :: "runtime \<Rightarrow> flagsBuilder \<Rightarrow> string list \<Rightarrow> error + env" where
  "Build E f args =
     (case buildRec E f args [] {} of
        Inl e \<Rightarrow> Inl e
      | Inr (f1, filePaths, pluginNameToPluginInfo, seenFlagFilePaths) \<Rightarrow>
         (case checkUnsupported f1 of
            Some e \<Rightarrow> Inl e
          | None \<Rightarrow>
             (case checkOuts (RangeOrder E pluginNameToPluginInfo) of
                Some e \<Rightarrow> Inl e
              | None \<Rightarrow>
                 (let fl = flags f1;
                      fl1 = (if length (IncludeDirPaths fl) = 0
                             then fl\<lparr>IncludeDirPaths := defaultIncludeDirPaths\<rparr> else fl);
                      fl2 = (if ErrorFormat fl1 = []
                             then fl1\<lparr>ErrorFormat := defaultErrorFormat\<rparr> else fl1)
                  in if length filePaths = 0 then Inl NoInputFiles
                     else Inr \<lparr>env.flags = fl2,
                               PluginNameToPluginInfo = pluginNameToPluginInfo,
                               FilePaths = filePaths\<rparr>))))"

subsection \<open>The expansion as the specification words it\<close>



text \<open>
  \<open>meets E f args t seen chain p S\<close>: the loop of \<open>buildRec\<close>, started on \<open>args\<close> with the
  receiver \<open>f\<close>, the table \<open>t\<close> and the seen set \<open>seen\<close>, arrives at a token \<^verbatim>\<open>@p\<close>
  with everything before it resolved. \<open>chain\<close> lists the argument files that are being
  expanded at that moment, the outermost first, and \<open>S\<close> is the seen set at that moment.
\<close>

inductive meets ::
  "runtime \<Rightarrow> flagsBuilder \<Rightarrow> string list \<Rightarrow> (string \<times> pluginInfo) list \<Rightarrow> string set
     \<Rightarrow> string list \<Rightarrow> string \<Rightarrow> string set \<Rightarrow> bool" for E where
  meets_here:
    "buildRecLoop E f pre [] t seen = Inr (f1, fps1, t1, S)
       \<Longrightarrow> meets E f (pre @ (CHR ''@'' # p) # post) t seen [] p S"
| meets_inside:
    "buildRecLoop E f pre [] t seen = Inr (f1, fps1, t1, seen1) \<Longrightarrow> q \<notin> seen1
       \<Longrightarrow> readFlagFile E q = Inr (sub, subArgs)
       \<Longrightarrow> parsePluginNameToPluginInfo sub t1 = Inr t2
       \<Longrightarrow> meets E sub subArgs t2 (insert q seen1) chain p S
       \<Longrightarrow> meets E f (pre @ (CHR ''@'' # q) # post) t seen (q # chain) p S"

text \<open>
  \<open>opened E args bs\<close>: \<open>bs\<close> are the builders of the argument files that the expansion
  of \<open>args\<close> opens, as the flag parser leaves them, each followed by those of the files it
  names in turn: the order in which \<open>merge\<close> folds them into the receiver.
\<close>

inductive opened :: "runtime \<Rightarrow> string list \<Rightarrow> flagsBuilder list \<Rightarrow> bool" for E where
  opened_Nil: "opened E [] []"
| opened_path: "c \<noteq> CHR ''@'' \<Longrightarrow> opened E args bs \<Longrightarrow> opened E ((c # a) # args) bs"
| opened_file:
    "readFlagFile E p = Inr (sub, subArgs) \<Longrightarrow> opened E subArgs bs1 \<Longrightarrow> opened E args bs2
       \<Longrightarrow> opened E ((CHR ''@'' # p) # args) (sub # bs1 @ bs2)"

subsection \<open>A file system for the examples\<close>

text \<open>
  Four argument files. Their lines hold no flags and no surrounding space, so that the flag
  parser returns a fresh builder and the lines as positional arguments: \<^verbatim>\<open>args.txt\<close>
  holds one path, \<^verbatim>\<open>A\<close> names \<^verbatim>\<open>B\<close>, \<^verbatim>\<open>B\<close> names \<^verbatim>\<open>A\<close>, and
  \<^verbatim>\<open>two.txt\<close> holds two paths on two lines.
\<close>

definition exampleRuntime :: runtime where
  "exampleRuntime =
     \<lparr>Files = [(''args.txt'', ''y.proto''), (''A'', ''@B''), (''B'', ''@A''),
               (''two.txt'', [CHR ''a'', CHR 0x0A, CHR ''b''])],
      TrimSpace = (\<lambda>s. s),
      Parse = (\<lambda>path args. Inr (newFlagsBuilder, args)),
      RangeOrder = (\<lambda>t. t)\<rparr>"

section \<open>Termination of buildRec\<close>

text \<open>
  Every nested call is on an argument file that is readable and not yet seen, and the seen
  set never shrinks, so the files left to see decrease.
\<close>

lemma seen_mono_p:
  "buildRec_buildRecLoop_dom (Inl (E, f, args, t, seen)) \<Longrightarrow>
     buildRec E f args t seen = Inr (f', fp, t', seen') \<Longrightarrow> seen \<subseteq> seen'"
  "buildRec_buildRecLoop_dom (Inr (E, g, args2, fps, t2, seen2)) \<Longrightarrow>
     buildRecLoop E g args2 fps t2 seen2 = Inr (g', fp2, t2', seen2') \<Longrightarrow> seen2 \<subseteq> seen2'"
proof (induction E f args t seen and E g args2 fps t2 seen2
    arbitrary: f' fp t' seen' and g' fp2 t2' seen2'
    rule: buildRec_buildRecLoop.pinduct)
  case (1 E f args t seen)
  then show ?case by (auto simp: buildRec.psimps split: sum.splits)
next
  case (2 E f filePaths t seen)
  then show ?case by (simp add: buildRecLoop.psimps)
next
  case (3 E f args filePaths t seen)
  then show ?case by (simp add: buildRecLoop.psimps)
next
  case (4 E f c flagFilePath args filePaths t seen)
  show ?case
  proof (cases "c \<noteq> CHR ''@''")
    case True
    with 4 show ?thesis by (simp add: buildRecLoop.psimps)
  next
    case False
    with 4(1,5) obtain sub subArgs sub' subFilePaths t1 seen1 where
      nin: "flagFilePath \<notin> seen" and
      rd: "readFlagFile E flagFilePath = Inr (sub, subArgs)" and
      br: "buildRec E sub subArgs t (insert flagFilePath seen)
             = Inr (sub', subFilePaths, t1, seen1)" and
      lp: "buildRecLoop E (merge f sub') args (filePaths @ subFilePaths) t1 seen1
             = Inr (g', fp2, t2', seen2')"
      by (auto simp: buildRecLoop.psimps split: if_splits sum.splits prod.splits)
    have a: "insert flagFilePath seen \<subseteq> seen1"
      by (rule "4.IH"(2)[OF False nin rd refl br])
    have b: "seen1 \<subseteq> seen2'"
      by (rule "4.IH"(3)[OF False nin rd refl br refl refl refl lp])
    from a b show ?thesis by blast
  qed
qed

lemma readFlagFile_Files:
  "readFlagFile E p = Inr r \<Longrightarrow> p \<in> fst ` set (Files E)"
  by (auto simp: readFlagFile_def ReadFile_def split: option.splits sum.splits
      dest: map_of_SomeD intro: rev_image_eqI)

lemma buildRec_total: "All buildRec_buildRecLoop_dom"
proof (rule "buildRec_buildRecLoop.termination"
    [where R = "inv_image (less_than <*lex*> less_than <*lex*> less_than)
    (\<lambda>x. case x of
        Inl (E, f, args, t, seen) \<Rightarrow>
          (card (fst ` set (Files E) - seen), length args, Suc 0)
      | Inr (E, f, args, fps, t, seen) \<Rightarrow>
          (card (fst ` set (Files E) - seen), length args, 0))"], goal_cases)
  case 1
  show ?case by (intro wf_inv_image wf_lex_prod wf_less_than)
next
  case (2 E f args t seen x2)
  show ?case by simp
next
  case (3 E f c flagFilePath args filePaths t seen)
  show ?case by simp
next
  case (4 E f c flagFilePath args filePaths t seen x2 x y)
  then have "flagFilePath \<in> fst ` set (Files E) - seen"
    using readFlagFile_Files by blast
  then have "card (fst ` set (Files E) - insert flagFilePath seen)
               < card (fst ` set (Files E) - seen)"
    by (metis Diff_insert card_Diff1_less finite_Diff finite_imageI finite_set)
  then show ?case by simp
next
  case (5 E f c flagFilePath args filePaths t seen x2 x y x2a xa ya xb yb xc yc)
  then have "insert flagFilePath seen \<subseteq> yc"
    using seen_mono_p(1) by blast
  then have "card (fst ` set (Files E) - yc) \<le> card (fst ` set (Files E) - seen)"
    by (intro card_mono) auto
  then show ?case by auto
qed

termination buildRec
  using buildRec_total by blast

lemma seen_mono:
  "buildRec E f args t seen = Inr (f', fp, t', seen') \<Longrightarrow> seen \<subseteq> seen'"
  "buildRecLoop E g args2 fps t2 seen2 = Inr (g', fp2, t2', seen2') \<Longrightarrow> seen2 \<subseteq> seen2'"
  using seen_mono_p buildRec_total by blast+

section \<open>The loop of buildRec\<close>

text \<open>The paths found so far are a prefix of the result and do not influence it.\<close>

lemma buildRecLoop_acc:
  "buildRecLoop E f args fps t seen =
     (case buildRecLoop E f args [] t seen of
        Inl e \<Rightarrow> Inl e
      | Inr (f', ps, t', seen') \<Rightarrow> Inr (f', fps @ ps, t', seen'))"
proof (induction args arbitrary: f fps t seen)
  case Nil
  show ?case by simp
next
  case (Cons a args)
  show ?case
  proof (cases a)
    case Nil
    then show ?thesis by simp
  next
    case (Cons c p)
    show ?thesis
    proof (cases "c = CHR ''@''")
      case False
      have "buildRecLoop E f (a # args) fps t seen = buildRecLoop E f args (fps @ [a]) t seen"
        using False Cons by simp
      moreover have "buildRecLoop E f (a # args) [] t seen = buildRecLoop E f args [a] t seen"
        using False Cons by simp
      ultimately show ?thesis
        using Cons.IH[of f "fps @ [a]" t seen] Cons.IH[of f "[a]" t seen]
        by (auto split: sum.splits)
    next
      case True
      show ?thesis
      proof (cases "p \<in> seen")
        case True
        with \<open>c = CHR ''@''\<close> Cons show ?thesis by simp
      next
        case False
        show ?thesis
        proof (cases "readFlagFile E p")
          case (Inl e)
          with False \<open>c = CHR ''@''\<close> Cons show ?thesis by simp
        next
          case (Inr r)
          obtain sub subArgs where r: "r = (sub, subArgs)" by (cases r)
          show ?thesis
          proof (cases "buildRec E sub subArgs t (insert p seen)")
            case (Inl e)
            with Inr r False \<open>c = CHR ''@''\<close> Cons show ?thesis by simp
          next
            case br: (Inr r2)
            obtain sub' sps t1 seen1 where r2: "r2 = (sub', sps, t1, seen1)" by (cases r2)
            have "buildRecLoop E f (a # args) fps t seen
                    = buildRecLoop E (merge f sub') args (fps @ sps) t1 seen1"
              using Inr r br r2 False \<open>c = CHR ''@''\<close> Cons by simp
            moreover have "buildRecLoop E f (a # args) [] t seen
                    = buildRecLoop E (merge f sub') args sps t1 seen1"
              using Inr r br r2 False \<open>c = CHR ''@''\<close> Cons by simp
            ultimately show ?thesis
              using Cons.IH[of "merge f sub'" "fps @ sps" t1 seen1]
                Cons.IH[of "merge f sub'" sps t1 seen1]
              by (auto split: sum.splits)
          qed
        qed
      qed
    qed
  qed
qed

section \<open>C6: the merge of a nested expansion into its parent\<close>

text \<open>
  C6. For every parent and child, each boolean toggle of the merged builder is the
  disjunction of the parent's and the child's, the include directories are the parent's
  followed by the child's, and the output location and the error format are the child's
  when the child's is not empty and the parent's otherwise.
\<close>

theorem merge_policy:
  "IncludeImports (flags (merge p c))
     = (IncludeImports (flags p) \<or> IncludeImports (flags c)) \<and>
   IncludeSourceInfo (flags (merge p c))
     = (IncludeSourceInfo (flags p) \<or> IncludeSourceInfo (flags c)) \<and>
   PrintFreeFieldNumbers (flags (merge p c))
     = (PrintFreeFieldNumbers (flags p) \<or> PrintFreeFieldNumbers (flags c)) \<and>
   DecodeRaw (merge p c) = (DecodeRaw p \<or> DecodeRaw c) \<and>
   IncludeDirPaths (flags (merge p c))
     = IncludeDirPaths (flags p) @ IncludeDirPaths (flags c) \<and>
   Output (flags (merge p c))
     = (if Output (flags c) \<noteq> [] then Output (flags c) else Output (flags p)) \<and>
   ErrorFormat (flags (merge p c))
     = (if ErrorFormat (flags c) \<noteq> [] then ErrorFormat (flags c) else ErrorFormat (flags p))"
  by (simp add: merge_def)

text \<open>
  The parent leaves include-imports off and names an output, the nested file turns
  include-imports on and names no output.
\<close>

theorem merge_policy_witness:
  "IncludeImports (flags (merge
      (newFlagsBuilder\<lparr>flags := (flags newFlagsBuilder)\<lparr>Output := ''a.bin''\<rparr>\<rparr>)
      (newFlagsBuilder\<lparr>flags := (flags newFlagsBuilder)\<lparr>IncludeImports := True\<rparr>\<rparr>))) \<and>
   Output (flags (merge
      (newFlagsBuilder\<lparr>flags := (flags newFlagsBuilder)\<lparr>Output := ''a.bin''\<rparr>\<rparr>)
      (newFlagsBuilder\<lparr>flags := (flags newFlagsBuilder)\<lparr>IncludeImports := True\<rparr>\<rparr>))) = ''a.bin''"
  using merge_policy
    [of "newFlagsBuilder\<lparr>flags := (flags newFlagsBuilder)\<lparr>Output := ''a.bin''\<rparr>\<rparr>"
        "newFlagsBuilder\<lparr>flags := (flags newFlagsBuilder)\<lparr>IncludeImports := True\<rparr>\<rparr>"]
  by (simp add: newFlagsBuilder_def)

section \<open>C3: the order of the input paths\<close>







lemma example_Build_file:
  "Build exampleRuntime newFlagsBuilder [''x.proto'', ''@args.txt'']
     = Inr \<lparr>env.flags = \<lparr>IncludeDirPaths = [''.''], IncludeImports = False,
                IncludeSourceInfo = False, PrintFreeFieldNumbers = False, Output = [],
                ErrorFormat = ''gcc''\<rparr>,
             PluginNameToPluginInfo = [], FilePaths = [''x.proto'', ''y.proto'']\<rparr>"
  by (simp add: Build_def exampleRuntime_def newFlagsBuilder_def parsePluginNameToPluginInfo_def
      readFlagFile_def ReadFile_def flagFilePathArgs_def merge_def checkUnsupported_def
      defaultIncludeDirPaths_def defaultErrorFormat_def)



section \<open>C10: the defaults of the include directories and of the error format\<close>

text \<open>
  What \<open>merge\<close> has folded into the receiver when \<open>buildRec\<close> returns: the include
  directories of the opened files behind its own, and an error format unless nobody gave
  one.
\<close>

lemma buildRec_opened:
  "buildRec E f args t seen = Inr (f', ps, t', seen') \<Longrightarrow>
     \<exists>bs. opened E args bs \<and>
       IncludeDirPaths (flags f')
         = IncludeDirPaths (flags f) @ concat (map (\<lambda>b. IncludeDirPaths (flags b)) bs) \<and>
       (ErrorFormat (flags f') = [] \<longleftrightarrow>
          ErrorFormat (flags f) = [] \<and> (\<forall>b\<in>set bs. ErrorFormat (flags b) = []))"
  "buildRecLoop E g args2 fps t2 seen2 = Inr (g', ps2, t2', seen2') \<Longrightarrow>
     \<exists>bs. opened E args2 bs \<and>
       IncludeDirPaths (flags g')
         = IncludeDirPaths (flags g) @ concat (map (\<lambda>b. IncludeDirPaths (flags b)) bs) \<and>
       (ErrorFormat (flags g') = [] \<longleftrightarrow>
          ErrorFormat (flags g) = [] \<and> (\<forall>b\<in>set bs. ErrorFormat (flags b) = []))"
proof (induction E f args t seen and E g args2 fps t2 seen2
    arbitrary: f' ps t' seen' and g' ps2 t2' seen2'
    rule: buildRec_buildRecLoop.induct)
  case (1 E f args t seen)
  then show ?case by (fastforce split: sum.splits)
next
  case (2 E f filePaths t seen)
  then show ?case by (auto intro: opened.intros)
next
  case (3 E f args filePaths t seen)
  then show ?case by simp
next
  case (4 E f c flagFilePath args filePaths t seen)
  show ?case
  proof (cases "c \<noteq> CHR ''@''")
    case True
    with 4(4) have "buildRecLoop E f args (filePaths @ [c # flagFilePath]) t seen
        = Inr (g', ps2, t2', seen2')" by simp
    from "4.IH"(1)[OF True this] obtain bs where
      "opened E args bs"
      "IncludeDirPaths (flags g')
         = IncludeDirPaths (flags f) @ concat (map (\<lambda>b. IncludeDirPaths (flags b)) bs)"
      "ErrorFormat (flags g') = [] \<longleftrightarrow>
          ErrorFormat (flags f) = [] \<and> (\<forall>b\<in>set bs. ErrorFormat (flags b) = [])"
      by blast
    with True show ?thesis by (blast intro: opened_path)
  next
    case False
    with 4(4) obtain sub subArgs sub' subFilePaths t1 seen1 where
      nin: "flagFilePath \<notin> seen" and
      rd: "readFlagFile E flagFilePath = Inr (sub, subArgs)" and
      br: "buildRec E sub subArgs t (insert flagFilePath seen)
             = Inr (sub', subFilePaths, t1, seen1)" and
      lp: "buildRecLoop E (merge f sub') args (filePaths @ subFilePaths) t1 seen1
             = Inr (g', ps2, t2', seen2')"
      by (auto split: if_splits sum.splits prod.splits)
    obtain bs1 where a: "opened E subArgs bs1"
      "IncludeDirPaths (flags sub')
         = IncludeDirPaths (flags sub) @ concat (map (\<lambda>b. IncludeDirPaths (flags b)) bs1)"
      "ErrorFormat (flags sub') = [] \<longleftrightarrow>
          ErrorFormat (flags sub) = [] \<and> (\<forall>b\<in>set bs1. ErrorFormat (flags b) = [])"
      using "4.IH"(2)[OF False nin rd refl br] by blast
    obtain bs2 where b: "opened E args bs2"
      "IncludeDirPaths (flags g')
         = IncludeDirPaths (flags (merge f sub'))
             @ concat (map (\<lambda>b. IncludeDirPaths (flags b)) bs2)"
      "ErrorFormat (flags g') = [] \<longleftrightarrow>
          ErrorFormat (flags (merge f sub')) = [] \<and> (\<forall>b\<in>set bs2. ErrorFormat (flags b) = [])"
      using "4.IH"(3)[OF False nin rd refl br refl refl refl lp] by blast
    from False have c: "c = CHR ''@''" by simp
    have o: "opened E ((c # flagFilePath) # args) (sub # bs1 @ bs2)"
      unfolding c by (rule opened_file[OF rd a(1) b(1)])
    have d: "IncludeDirPaths (flags g')
         = IncludeDirPaths (flags f)
             @ concat (map (\<lambda>b. IncludeDirPaths (flags b)) (sub # bs1 @ bs2))"
      using a(2) b(2) by (simp add: merge_def)
    have e: "ErrorFormat (flags g') = [] \<longleftrightarrow>
          ErrorFormat (flags f) = [] \<and> (\<forall>b\<in>set (sub # bs1 @ bs2). ErrorFormat (flags b) = [])"
      using a(3) b(3) by (auto simp: merge_def)
    from o d e show ?thesis by blast
  qed
qed

lemma Build_InrD:
  assumes "Build E f args = Inr e"
  shows "\<exists>f1 ps t s. buildRec E f args [] {} = Inr (f1, ps, t, s) \<and>
       checkUnsupported f1 = None \<and> checkOuts (RangeOrder E t) = None \<and> ps \<noteq> [] \<and>
       PluginNameToPluginInfo e = t \<and> FilePaths e = ps \<and>
       IncludeDirPaths (env.flags e)
         = (if IncludeDirPaths (flags f1) = [] then [''.''] else IncludeDirPaths (flags f1)) \<and>
       ErrorFormat (env.flags e)
         = (if ErrorFormat (flags f1) = [] then ''gcc'' else ErrorFormat (flags f1))"
proof (cases "buildRec E f args [] {}")
  case (Inl x)
  with assms show ?thesis by (simp add: Build_def)
next
  case (Inr r)
  obtain f1 ps t s where r: "r = (f1, ps, t, s)" by (cases r)
  from assms Inr r have u: "checkUnsupported f1 = None"
    by (simp add: Build_def split: option.splits)
  from assms Inr r u have c: "checkOuts (RangeOrder E t) = None"
    by (simp add: Build_def split: option.splits)
  from assms Inr r u c have n: "ps \<noteq> []"
    by (simp add: Build_def Let_def split: if_splits)
  from assms Inr r u c n have e: "e = \<lparr>env.flags =
      (let fl = flags f1;
           fl1 = (if length (IncludeDirPaths fl) = 0
                  then fl\<lparr>IncludeDirPaths := defaultIncludeDirPaths\<rparr> else fl)
       in if ErrorFormat fl1 = [] then fl1\<lparr>ErrorFormat := defaultErrorFormat\<rparr> else fl1),
      PluginNameToPluginInfo = t, FilePaths = ps\<rparr>"
    by (simp add: Build_def Let_def)
  have "IncludeDirPaths (env.flags e)
         = (if IncludeDirPaths (flags f1) = [] then [''.''] else IncludeDirPaths (flags f1))"
    by (simp add: e Let_def defaultIncludeDirPaths_def)
  moreover have "ErrorFormat (env.flags e)
         = (if ErrorFormat (flags f1) = [] then ''gcc'' else ErrorFormat (flags f1))"
    by (simp add: e Let_def defaultErrorFormat_def)
  moreover have "PluginNameToPluginInfo e = t" "FilePaths e = ps" by (simp_all add: e)
  ultimately show ?thesis using Inr r u c n by blast
qed

text \<open>
  C10. A returned environment has include directories and an error format. With \<open>bs\<close> the
  builders of the argument files the expansion opened: the include directories are the
  receiver's followed by those of \<open>bs\<close>, and the single directory \<^verbatim>\<open>.\<close> when these are
  none; the error format is \<^verbatim>\<open>gcc\<close> when neither the receiver nor any of \<open>bs\<close> gave one.
\<close>

theorem Build_defaults:
  assumes "Build E f args = Inr e"
  shows "IncludeDirPaths (env.flags e) \<noteq> [] \<and> ErrorFormat (env.flags e) \<noteq> [] \<and>
    (\<exists>bs. opened E args bs \<and>
       IncludeDirPaths (env.flags e)
         = (if IncludeDirPaths (flags f) @ concat (map (\<lambda>b. IncludeDirPaths (flags b)) bs) = []
            then [''.'']
            else IncludeDirPaths (flags f) @ concat (map (\<lambda>b. IncludeDirPaths (flags b)) bs)) \<and>
       (ErrorFormat (flags f) = [] \<and> (\<forall>b\<in>set bs. ErrorFormat (flags b) = [])
          \<longrightarrow> ErrorFormat (env.flags e) = ''gcc''))"
proof -
  from assms obtain f1 ps t s where
    br: "buildRec E f args [] {} = Inr (f1, ps, t, s)" and
    i: "IncludeDirPaths (env.flags e)
         = (if IncludeDirPaths (flags f1) = [] then [''.''] else IncludeDirPaths (flags f1))" and
    ef: "ErrorFormat (env.flags e)
         = (if ErrorFormat (flags f1) = [] then ''gcc'' else ErrorFormat (flags f1))"
    using Build_InrD by blast
  from buildRec_opened(1)[OF br] obtain bs where
    o: "opened E args bs" and
    d: "IncludeDirPaths (flags f1)
         = IncludeDirPaths (flags f) @ concat (map (\<lambda>b. IncludeDirPaths (flags b)) bs)" and
    g: "ErrorFormat (flags f1) = [] \<longleftrightarrow>
          ErrorFormat (flags f) = [] \<and> (\<forall>b\<in>set bs. ErrorFormat (flags b) = [])"
    by blast
  have 1: "IncludeDirPaths (env.flags e) \<noteq> []" using i by (simp split: if_splits)
  have 2: "ErrorFormat (env.flags e) \<noteq> []" using ef by (simp split: if_splits)
  have 3: "IncludeDirPaths (env.flags e)
         = (if IncludeDirPaths (flags f) @ concat (map (\<lambda>b. IncludeDirPaths (flags b)) bs) = []
            then [''.'']
            else IncludeDirPaths (flags f) @ concat (map (\<lambda>b. IncludeDirPaths (flags b)) bs))"
    using i d by simp
  have 4: "ErrorFormat (flags f) = [] \<and> (\<forall>b\<in>set bs. ErrorFormat (flags b) = [])
          \<longrightarrow> ErrorFormat (env.flags e) = ''gcc''"
    using ef g by simp
  from 1 2 3 4 o show ?thesis by blast
qed

theorem Build_defaults_witness:
  "IncludeDirPaths (env.flags \<lparr>env.flags = \<lparr>IncludeDirPaths = [''.''], IncludeImports = False,
                IncludeSourceInfo = False, PrintFreeFieldNumbers = False, Output = [],
                ErrorFormat = ''gcc''\<rparr>,
             PluginNameToPluginInfo = [], FilePaths = [''x.proto'', ''y.proto'']\<rparr>) \<noteq> [] \<and>
   Build exampleRuntime newFlagsBuilder [''x.proto'', ''@args.txt'']
     = Inr \<lparr>env.flags = \<lparr>IncludeDirPaths = [''.''], IncludeImports = False,
                IncludeSourceInfo = False, PrintFreeFieldNumbers = False, Output = [],
                ErrorFormat = ''gcc''\<rparr>,
             PluginNameToPluginInfo = [], FilePaths = [''x.proto'', ''y.proto'']\<rparr>"
  using Build_defaults[OF example_Build_file] example_Build_file by simp

section \<open>The seen set along the loop\<close>


lemma buildRecLoop_path:
  "c \<noteq> CHR ''@'' \<Longrightarrow>
     buildRecLoop E f ((c # p) # args) fps t seen = buildRecLoop E f args (fps @ [c # p]) t seen"
  by simp

text \<open>The loop over a concatenation is the loop over its parts, one after the other.\<close>

lemma buildRecLoop_append:
  "buildRecLoop E f (pre @ rest) fps t seen =
     (case buildRecLoop E f pre fps t seen of
        Inl e \<Rightarrow> Inl e
      | Inr (f1, fps1, t1, seen1) \<Rightarrow> buildRecLoop E f1 rest fps1 t1 seen1)"
proof (induction pre arbitrary: f fps t seen)
  case Nil
  show ?case by simp
next
  case (Cons a pre)
  show ?case
  proof (cases a)
    case Nil
    then show ?thesis by simp
  next
    case (Cons c p)
    show ?thesis
    proof (cases "c = CHR ''@''")
      case False
      then show ?thesis using Cons Cons.IH by simp
    next
      case True
      note a = Cons[unfolded True]
      show ?thesis
      proof (cases "p \<in> seen")
        case True
        then show ?thesis by (simp add: a)
      next
        case False
        show ?thesis
        proof (cases "readFlagFile E p")
          case (Inl e)
          with False show ?thesis by (simp add: a)
        next
          case (Inr r)
          obtain sub subArgs where r: "r = (sub, subArgs)" by (cases r)
          show ?thesis
          proof (cases "buildRec E sub subArgs t (insert p seen)")
            case (Inl e)
            with Inr r False show ?thesis by (simp add: a)
          next
            case br: (Inr r2)
            obtain sub' sps t1 seen1 where r2: "r2 = (sub', sps, t1, seen1)" by (cases r2)
            show ?thesis
              using Inr r br r2 False Cons.IH[of "merge f sub'" "fps @ sps" t1 seen1]
              by (simp add: a)
          qed
        qed
      qed
    qed
  qed
qed

lemma buildRecLoop_acc_Inr:
  "buildRecLoop E f args [] t seen = Inr (f1, ps, t1, seen1) \<Longrightarrow>
     buildRecLoop E f args fps t seen = Inr (f1, fps @ ps, t1, seen1)"
  by (subst buildRecLoop_acc) simp

lemma buildRecLoop_acc_Inl:
  "buildRecLoop E f args [] t seen = Inl e \<Longrightarrow> buildRecLoop E f args fps t seen = Inl e"
  by (subst buildRecLoop_acc) simp

text \<open>A token met with its path in the seen set ends the whole resolution.\<close>

lemma meets_seen_error:
  "meets E f args t seen chain p S \<Longrightarrow> p \<in> S \<Longrightarrow>
     buildRecLoop E f args fps t seen = Inl (RecursiveReference p)"
proof (induction arbitrary: fps rule: meets.induct)
  case (meets_here f pre t seen f1 fps1 t1 S p post)
  from meets_here(1) have "buildRecLoop E f pre fps t seen = Inr (f1, fps @ fps1, t1, S)"
    by (rule buildRecLoop_acc_Inr)
  then show ?case using meets_here(2)
    by (simp add: buildRecLoop_append[of E f pre])
next
  case (meets_inside f pre t seen f1 fps1 t1 seen1 q sub subArgs t2 chain p S post)
  from meets_inside(1) have a: "buildRecLoop E f pre fps t seen = Inr (f1, fps @ fps1, t1, seen1)"
    by (rule buildRecLoop_acc_Inr)
  have "buildRecLoop E sub subArgs [] t2 (insert q seen1) = Inl (RecursiveReference p)"
    using meets_inside.IH meets_inside.prems by blast
  then have b: "buildRec E sub subArgs t1 (insert q seen1) = Inl (RecursiveReference p)"
    using meets_inside(4) by simp
  show ?case
    using a b meets_inside(2,3)
    by (simp add: buildRecLoop_append[of E f pre])
qed

text \<open>The seen set at that moment holds the files under expansion.\<close>

lemma meets_chain_seen:
  "meets E f args t seen chain p S \<Longrightarrow> seen \<union> set chain \<subseteq> S"
proof (induction rule: meets.induct)
  case (meets_here f pre t seen f1 fps1 t1 S p post)
  then show ?case using seen_mono(2) by fastforce
next
  case (meets_inside f pre t seen f1 fps1 t1 seen1 q sub subArgs t2 chain p S post)
  from meets_inside(1) have "seen \<subseteq> seen1" by (rule seen_mono(2))
  with meets_inside.IH show ?case by auto
qed



lemma Build_buildRecLoop_Inl:
  "parsePluginNameToPluginInfo f [] = Inr t0 \<Longrightarrow> buildRecLoop E f args [] t0 {} = Inl e \<Longrightarrow>
     Build E f args = Inl e"
  by (simp add: Build_def)

section \<open>C4: an argument file that refers to itself\<close>

text \<open>
  C4. Let the resolution arrive at a token \<^verbatim>\<open>@p\<close> while the argument files \<open>chain\<close> are
  being expanded, each named by a token of the one before it and the first by a token of
  the command line. If \<open>p\<close> is one of them, so that \<open>p\<close> refers to itself, by its own token
  or through the files after it in the chain, then \<open>Build\<close> fails with the recursive
  reference error that names \<open>p\<close>, however long the chain is.
\<close>

theorem self_reference_fails:
  assumes "parsePluginNameToPluginInfo f [] = Inr t0"
    and "meets E f args t0 {} chain p S"
    and "p \<in> set chain"
  shows "Build E f args = Inl (RecursiveReference p)"
proof -
  from assms(2) have "set chain \<subseteq> S" using meets_chain_seen by blast
  with assms(3) have "p \<in> S" by blast
  with assms(2) have "buildRecLoop E f args [] t0 {} = Inl (RecursiveReference p)"
    by (rule meets_seen_error)
  with assms(1) show ?thesis by (rule Build_buildRecLoop_Inl)
qed

text \<open>The command line names \<^verbatim>\<open>A\<close>, \<^verbatim>\<open>A\<close> names \<^verbatim>\<open>B\<close>, and \<^verbatim>\<open>B\<close> names \<^verbatim>\<open>A\<close>.\<close>

lemma example_parse: "parsePluginNameToPluginInfo newFlagsBuilder t = Inr t"
  by (simp add: parsePluginNameToPluginInfo_def newFlagsBuilder_def)

lemma example_readFlagFile:
  "readFlagFile exampleRuntime ''A'' = Inr (newFlagsBuilder, [''@B''])"
  "readFlagFile exampleRuntime ''B'' = Inr (newFlagsBuilder, [''@A''])"
  "readFlagFile exampleRuntime ''args.txt'' = Inr (newFlagsBuilder, [''y.proto''])"
  by (simp_all add: readFlagFile_def ReadFile_def flagFilePathArgs_def exampleRuntime_def)

lemma example_meets:
  "meets exampleRuntime newFlagsBuilder [''@A''] [] {} [''A'', ''B''] ''A'' {''B'', ''A''}"
proof -
  have l: "\<And>s. buildRecLoop exampleRuntime newFlagsBuilder [] [] [] s
             = Inr (newFlagsBuilder, [], [], s)" by simp
  have "meets exampleRuntime newFlagsBuilder ([] @ ''@A'' # []) [] {''B'', ''A''} [] ''A''
      {''B'', ''A''}"
    by (rule meets_here) (rule l)
  then have 3: "meets exampleRuntime newFlagsBuilder [''@A''] [] (insert ''B'' {''A''}) [] ''A''
      {''B'', ''A''}"
    by simp
  have "meets exampleRuntime newFlagsBuilder ([] @ ''@B'' # []) [] {''A''} [''B''] ''A''
      {''B'', ''A''}"
    by (rule meets_inside[OF l _ example_readFlagFile(2) example_parse 3]) simp
  then have 2: "meets exampleRuntime newFlagsBuilder [''@B''] [] (insert ''A'' {}) [''B''] ''A''
      {''B'', ''A''}"
    by simp
  have "meets exampleRuntime newFlagsBuilder ([] @ ''@A'' # []) [] {} [''A'', ''B''] ''A''
      {''B'', ''A''}"
    by (rule meets_inside[OF l _ example_readFlagFile(1) example_parse 2]) simp
  then show ?thesis by simp
qed

theorem self_reference_fails_witness:
  "Build exampleRuntime newFlagsBuilder [''@A''] = Inl (RecursiveReference ''A'')"
proof -
  have "''A'' \<in> set [''A'', ''B'']" by simp
  with example_parse example_meets show ?thesis by (rule self_reference_fails)
qed

section \<open>C9: an argument file named a second time\<close>



section \<open>The string functions\<close>

lemma Split_not_Nil: "Split s sep \<noteq> []"
  by (induction s) (auto split: list.splits)

lemma Split_no_sep: "sep \<notin> set s \<Longrightarrow> Split s sep = [s]"
  by (induction s) auto

lemma Split_first: "sep \<notin> set a \<Longrightarrow> Split (a @ sep # b) sep = a # Split b sep"
  by (induction a) auto

lemma length_Split: "length (Split s sep) = Suc (count_list s sep)"
proof (induction s)
  case Nil
  show ?case by simp
next
  case (Cons c s)
  then show ?case using Split_not_Nil[of s sep] by (cases "Split s sep") auto
qed

lemma Split_many:
  assumes "1 < count_list s sep"
  shows "\<exists>a b c r. Split s sep = a # b # c # r"
proof -
  from assms have "Suc (Suc (Suc 0)) \<le> length (Split s sep)" by (simp add: length_Split)
  then obtain a r1 where 1: "Split s sep = a # r1" "Suc (Suc 0) \<le> length r1"
    by (auto simp: Suc_le_length_iff)
  then obtain b r2 where 2: "r1 = b # r2" "Suc 0 \<le> length r2"
    by (auto simp: Suc_le_length_iff)
  then obtain c r where 3: "r2 = c # r"
    by (auto simp: Suc_le_length_iff)
  from 1 2 3 show ?thesis by blast
qed






lemma HasSuffix_append: "HasSuffix (s @ x) x"
  by (simp add: HasSuffix_def suffix_def)

lemma TrimSuffix_append: "TrimSuffix (s @ x) x = s"
  by (simp add: TrimSuffix_def HasSuffix_def suffix_def)

lemma HasSuffix_other:
  assumes "length x = length y" and "x \<noteq> y"
  shows "\<not> HasSuffix (s @ x) y"
proof
  assume "HasSuffix (s @ x) y"
  then obtain zs where "s @ x = zs @ y" by (auto simp: HasSuffix_def suffix_def)
  with assms(1) have "x = y" by simp
  with assms(2) show False by simp
qed

section \<open>The loops of parsePluginNameToPluginInfo\<close>

lemma parseValues_append:
  "parseValues f (pre @ rest) t =
     (case parseValues f pre t of Inl e \<Rightarrow> Inl e | Inr t1 \<Rightarrow> parseValues f rest t1)"
  by (induction pre arbitrary: t) (auto split: sum.splits)

text \<open>The plugin visited after the plugins \<open>pre\<close> decides the result when it fails.\<close>

lemma parsePluginNameToPluginInfo_at_Inl:
  assumes "pluginNameToValue f = pre @ (name, pv) # post"
    and "parseValues f pre t = Inr t1"
    and "parseOut f name pv t1 = Inl e \<or>
         (\<exists>t2. parseOut f name pv t1 = Inr t2 \<and> parseOpt f name pv t2 = Inl e)"
  shows "parsePluginNameToPluginInfo f t = Inl e"
  using assms by (auto simp: parsePluginNameToPluginInfo_def parseValues_append)

lemma pluginFakeAt_Inr:
  "0 \<le> i \<Longrightarrow> i < int (length (pluginFake f)) \<Longrightarrow>
     pluginFakeAt f i = Inr (pluginFake f ! nat i)"
  by (simp add: pluginFakeAt_def)

lemma parseOut_many_colons:
  assumes "0 \<le> OutIndex pv" and "OutIndex pv < int (length (pluginFake f))"
    and "1 < count_list (pluginFake f ! nat (OutIndex pv)) (CHR '':'')"
  shows "parseOut f name pv t = Inl (OutMultipleColons name (pluginFake f ! nat (OutIndex pv)))"
proof -
  from Split_many[OF assms(3)] obtain a b c r where
    "Split (pluginFake f ! nat (OutIndex pv)) (CHR '':'') = a # b # c # r" by blast
  then show ?thesis
    using assms(1,2) by (simp add: parseOut_def pluginFakeAt_Inr)
qed

lemma parseOut_no_colon:
  assumes "0 \<le> OutIndex pv" and "OutIndex pv < int (length (pluginFake f))"
    and "CHR '':'' \<notin> set (pluginFake f ! nat (OutIndex pv))"
  shows "parseOut f name pv t =
    (if Out (getPluginInfo t name) \<noteq> [] then Inl (DuplicateOut name)
     else Inr (AList.update name
                 ((getPluginInfo t name)\<lparr>Out := pluginFake f ! nat (OutIndex pv)\<rparr>) t))"
  using assms by (simp add: parseOut_def pluginFakeAt_Inr Split_no_sep Let_def)

lemma parseOut_one_colon:
  assumes "0 \<le> OutIndex pv" and "OutIndex pv < int (length (pluginFake f))"
    and "pluginFake f ! nat (OutIndex pv) = a @ CHR '':'' # b"
    and "CHR '':'' \<notin> set a" and "CHR '':'' \<notin> set b"
  shows "parseOut f name pv t =
    (if Out (getPluginInfo t name) \<noteq> [] then Inl (DuplicateOut name)
     else if a \<noteq> [] then
       (if Opt (getPluginInfo t name) \<noteq> [] then Inl (DuplicateOpt name)
        else Inr (AList.update name ((getPluginInfo t name)\<lparr>Out := b, Opt := a\<rparr>) t))
     else Inr (AList.update name ((getPluginInfo t name)\<lparr>Out := b\<rparr>) t))"
  using assms by (simp add: parseOut_def pluginFakeAt_Inr Split_first Split_no_sep Let_def)


lemma parseOpt_none: "OptIndex pv < 0 \<Longrightarrow> parseOpt f name pv t = Inr t"
  by (simp add: parseOpt_def)

lemma getPluginInfo_None: "map_of t name = None \<Longrightarrow> getPluginInfo t name = newPluginInfo"
  by (simp add: getPluginInfo_def)

lemma getPluginInfo_update: "getPluginInfo (AList.update name i t) name = i"
  by (simp add: getPluginInfo_def update_conv')

section \<open>C7: the colons of an out directive\<close>

text \<open>
  C7. An out directive whose value holds more than one colon makes the resolution fail
  with the error that names the plugin and the value, whichever plugins were visited
  before it without failing. When it is the only directive, for a plugin the table does
  not hold: a value without a colon is the output location, with no options; a value with
  one colon gives the options before the colon and the output location after it.
\<close>

theorem out_directive_colons:
  "(pluginNameToValue f = pre @ (name, pv) # post \<and> parseValues f pre t = Inr t1 \<and>
    0 \<le> OutIndex pv \<and> OutIndex pv < int (length (pluginFake f)) \<and>
    1 < count_list (pluginFake f ! nat (OutIndex pv)) (CHR '':'')
    \<longrightarrow> parsePluginNameToPluginInfo f t
          = Inl (OutMultipleColons name (pluginFake f ! nat (OutIndex pv)))) \<and>
   (pluginNameToValue f = [(name, pv)] \<and> PluginPathValues f = [] \<and> map_of t name = None \<and>
    0 \<le> OutIndex pv \<and> OutIndex pv < int (length (pluginFake f)) \<and> OptIndex pv < 0 \<and>
    CHR '':'' \<notin> set (pluginFake f ! nat (OutIndex pv))
    \<longrightarrow> parsePluginNameToPluginInfo f t
          = Inr (AList.update name
                   \<lparr>Out = pluginFake f ! nat (OutIndex pv), Opt = [], Path = []\<rparr> t)) \<and>
   (pluginNameToValue f = [(name, pv)] \<and> PluginPathValues f = [] \<and> map_of t name = None \<and>
    0 \<le> OutIndex pv \<and> OutIndex pv < int (length (pluginFake f)) \<and> OptIndex pv < 0 \<and>
    pluginFake f ! nat (OutIndex pv) = a @ CHR '':'' # b \<and>
    CHR '':'' \<notin> set a \<and> CHR '':'' \<notin> set b
    \<longrightarrow> parsePluginNameToPluginInfo f t
          = Inr (AList.update name \<lparr>Out = b, Opt = a, Path = []\<rparr> t))"
proof (intro conjI impI)
  assume h: "pluginNameToValue f = pre @ (name, pv) # post \<and> parseValues f pre t = Inr t1 \<and>
    0 \<le> OutIndex pv \<and> OutIndex pv < int (length (pluginFake f)) \<and>
    1 < count_list (pluginFake f ! nat (OutIndex pv)) (CHR '':'')"
  then have "parseOut f name pv t1
      = Inl (OutMultipleColons name (pluginFake f ! nat (OutIndex pv)))"
    by (simp add: parseOut_many_colons)
  with h show "parsePluginNameToPluginInfo f t
      = Inl (OutMultipleColons name (pluginFake f ! nat (OutIndex pv)))"
    using parsePluginNameToPluginInfo_at_Inl by blast
next
  assume h: "pluginNameToValue f = [(name, pv)] \<and> PluginPathValues f = [] \<and>
    map_of t name = None \<and>
    0 \<le> OutIndex pv \<and> OutIndex pv < int (length (pluginFake f)) \<and> OptIndex pv < 0 \<and>
    CHR '':'' \<notin> set (pluginFake f ! nat (OutIndex pv))"
  then have "parseOut f name pv t = Inr (AList.update name
      \<lparr>Out = pluginFake f ! nat (OutIndex pv), Opt = [], Path = []\<rparr> t)"
    by (simp add: parseOut_no_colon getPluginInfo_None newPluginInfo_def)
  with h show "parsePluginNameToPluginInfo f t = Inr (AList.update name
      \<lparr>Out = pluginFake f ! nat (OutIndex pv), Opt = [], Path = []\<rparr> t)"
    by (simp add: parsePluginNameToPluginInfo_def parseOpt_none)
next
  assume h: "pluginNameToValue f = [(name, pv)] \<and> PluginPathValues f = [] \<and>
    map_of t name = None \<and>
    0 \<le> OutIndex pv \<and> OutIndex pv < int (length (pluginFake f)) \<and> OptIndex pv < 0 \<and>
    pluginFake f ! nat (OutIndex pv) = a @ CHR '':'' # b \<and>
    CHR '':'' \<notin> set a \<and> CHR '':'' \<notin> set b"
  then have "parseOut f name pv t = Inr (AList.update name \<lparr>Out = b, Opt = a, Path = []\<rparr> t)"
    by (simp add: parseOut_one_colon[where a = a and b = b] getPluginInfo_None
        newPluginInfo_def)
  with h show "parsePluginNameToPluginInfo f t
      = Inr (AList.update name \<lparr>Out = b, Opt = a, Path = []\<rparr> t)"
    by (simp add: parsePluginNameToPluginInfo_def parseOpt_none)
qed

lemma example_setFlag_out:
  "setFlag newFlagsBuilder ''foo_out'' v
     = newFlagsBuilder\<lparr>pluginFake := [v],
         pluginNameToValue := [(''foo'', \<lparr>OutIndex = 0, OptIndex = - 1\<rparr>)]\<rparr>"
  by (simp add: setFlag_def Normalize_def pluginFakeParse_def HasSuffix_def TrimSuffix_def
      suffix_to_prefix newFlagsBuilder_def newPluginValue_def Let_def)

lemma example_setFlag_out_fields:
  "pluginNameToValue (setFlag newFlagsBuilder ''foo_out'' v)
     = [(''foo'', \<lparr>OutIndex = 0, OptIndex = - 1\<rparr>)]"
  "pluginFake (setFlag newFlagsBuilder ''foo_out'' v) = [v]"
  "PluginPathValues (setFlag newFlagsBuilder ''foo_out'' v) = []"
  by (simp_all add: example_setFlag_out) (simp add: newFlagsBuilder_def)

theorem out_directive_colons_witness:
  "parsePluginNameToPluginInfo (setFlag newFlagsBuilder ''foo_out'' ''a:b:c'') []
     = Inl (OutMultipleColons ''foo'' ''a:b:c'') \<and>
   parsePluginNameToPluginInfo (setFlag newFlagsBuilder ''foo_out'' ''out/dir'') []
     = Inr [(''foo'', \<lparr>Out = ''out/dir'', Opt = [], Path = []\<rparr>)] \<and>
   parsePluginNameToPluginInfo (setFlag newFlagsBuilder ''foo_out'' ''myopt:out/dir'') []
     = Inr [(''foo'', \<lparr>Out = ''out/dir'', Opt = ''myopt'', Path = []\<rparr>)]"
proof (intro conjI)
  show "parsePluginNameToPluginInfo (setFlag newFlagsBuilder ''foo_out'' ''a:b:c'') []
     = Inl (OutMultipleColons ''foo'' ''a:b:c'')"
    using out_directive_colons[of "setFlag newFlagsBuilder ''foo_out'' ''a:b:c''" "[]" "''foo''"
        "\<lparr>OutIndex = 0, OptIndex = - 1\<rparr>" "[]" "[]" "[]"]
    by (simp add: example_setFlag_out_fields)
next
  show "parsePluginNameToPluginInfo (setFlag newFlagsBuilder ''foo_out'' ''out/dir'') []
     = Inr [(''foo'', \<lparr>Out = ''out/dir'', Opt = [], Path = []\<rparr>)]"
    using out_directive_colons[of "setFlag newFlagsBuilder ''foo_out'' ''out/dir''" "[]" "''foo''"
        "\<lparr>OutIndex = 0, OptIndex = - 1\<rparr>" "[]" "[]" "[]"]
    by (simp add: example_setFlag_out_fields)
next
  show "parsePluginNameToPluginInfo (setFlag newFlagsBuilder ''foo_out'' ''myopt:out/dir'') []
     = Inr [(''foo'', \<lparr>Out = ''out/dir'', Opt = ''myopt'', Path = []\<rparr>)]"
    using out_directive_colons[of "setFlag newFlagsBuilder ''foo_out'' ''myopt:out/dir''" "[]"
        "''foo''" "\<lparr>OutIndex = 0, OptIndex = - 1\<rparr>" "[]" "[]" "[]" "''myopt''" "''out/dir''"]
    by (simp add: example_setFlag_out_fields)
qed

section \<open>Plugin directives through Normalize\<close>


lemma Normalize_opt:
  "Normalize f (name @ ''_opt'')
    = (pluginFakeParse f (name @ ''_opt'') ''_opt'' False, pluginFakeFlagName)"
proof -
  have "\<not> HasSuffix (name @ ''_opt'') ''_out''"
    by (rule HasSuffix_other) simp_all
  then show ?thesis by (simp add: Normalize_def HasSuffix_append)
qed


lemma setFlag_opt:
  "setFlag f (name @ ''_opt'') v
    = f\<lparr>pluginNameToValue :=
          AList.update name
            ((case map_of (pluginNameToValue f) name of None \<Rightarrow> newPluginValue | Some x \<Rightarrow> x)
               \<lparr>OptIndex := int (length (pluginFake f))\<rparr>)
            (pluginNameToValue f),
        pluginFake := pluginFake f @ [v]\<rparr>"
  by (simp add: setFlag_def Normalize_opt pluginFakeParse_def TrimSuffix_append Let_def)

lemma newFlagsBuilder_fields:
  "pluginNameToValue newFlagsBuilder = []" "pluginFake newFlagsBuilder = []"
  "PluginPathValues newFlagsBuilder = []"
  by (simp_all add: newFlagsBuilder_def)




section \<open>C2: the combined form of an out directive\<close>




section \<open>C5: one out index and one opt index for a plugin\<close>








lemma example_setFlag_opt_fields:
  "pluginNameToValue (setFlag newFlagsBuilder ''foo_opt'' v)
     = [(''foo'', \<lparr>OutIndex = - 1, OptIndex = 0\<rparr>)]"
  "pluginFake (setFlag newFlagsBuilder ''foo_opt'' v) = [v]"
  "PluginPathValues (setFlag newFlagsBuilder ''foo_opt'' v) = []"
  using setFlag_opt[of newFlagsBuilder "''foo''" v]
  by (simp_all add: newFlagsBuilder_fields newPluginValue_def)



section \<open>C1: the key of an explicit plugin path\<close>



lemma parsePlugin_paths_only:
  "parsePluginNameToPluginInfo (newFlagsBuilder\<lparr>PluginPathValues := vs\<rparr>) t = parsePaths vs t"
  by (simp add: parsePluginNameToPluginInfo_def newFlagsBuilder_def)




section \<open>C8: options and paths need an output location\<close>

lemma checkOuts_first:
  assumes "\<forall>(m, j)\<in>set pre. Out j \<noteq> [] \<or> (Opt j = [] \<and> Path j = [])"
    and "Out i = []" and "Opt i \<noteq> [] \<or> Path i \<noteq> []"
  shows "checkOuts (pre @ (n, i) # post)
    = Some (if Opt i \<noteq> [] then CannotSpecifyOptWithoutOut n else CannotSpecifyPathWithoutOut n)"
  using assms by (induction pre) auto

lemma checkOuts_None:
  "checkOuts l = None \<Longrightarrow> \<forall>(m, j)\<in>set l. Out j \<noteq> [] \<or> (Opt j = [] \<and> Path j = [])"
  by (induction l) (auto split: if_splits)

lemma Build_checkOuts_Some:
  "buildRec E f args [] {} = Inr (f1, ps, t, s) \<Longrightarrow> checkUnsupported f1 = None \<Longrightarrow>
     checkOuts (RangeOrder E t) = Some e \<Longrightarrow> Build E f args = Inl e"
  by (simp add: Build_def)

text \<open>
  C8, amended. After \<open>buildRec\<close> has returned and no unsupported flag was found, \<open>Build\<close>
  visits the table of plugins in the order of \<^verbatim>\<open>range\<close>. At the first plugin that has no
  output location but options or a path, it fails: with the error for options without an
  output when the plugin has options, also when it has a path as well, and with the error
  for a path without an output when it has a path and no options. An environment that
  \<open>Build\<close> returns holds no plugin with options or a path and no output location, as long
  as \<^verbatim>\<open>range\<close> visits every entry of the table.
\<close>

theorem outputs_required:
  "(buildRec E f args [] {} = Inr (f1, ps, t, s) \<and> checkUnsupported f1 = None \<and>
    RangeOrder E t = pre @ (n, i) # post \<and>
    (\<forall>(m, j)\<in>set pre. Out j \<noteq> [] \<or> (Opt j = [] \<and> Path j = [])) \<and>
    Out i = [] \<and> (Opt i \<noteq> [] \<or> Path i \<noteq> [])
    \<longrightarrow> Build E f args
          = Inl (if Opt i \<noteq> [] then CannotSpecifyOptWithoutOut n
                 else CannotSpecifyPathWithoutOut n)) \<and>
   (Build E f args = Inr e \<and>
    set (PluginNameToPluginInfo e) \<subseteq> set (RangeOrder E (PluginNameToPluginInfo e))
    \<longrightarrow> (\<forall>(m, j)\<in>set (PluginNameToPluginInfo e). Out j \<noteq> [] \<or> (Opt j = [] \<and> Path j = [])))"
proof (intro conjI impI)
  assume h: "buildRec E f args [] {} = Inr (f1, ps, t, s) \<and> checkUnsupported f1 = None \<and>
    RangeOrder E t = pre @ (n, i) # post \<and>
    (\<forall>(m, j)\<in>set pre. Out j \<noteq> [] \<or> (Opt j = [] \<and> Path j = [])) \<and>
    Out i = [] \<and> (Opt i \<noteq> [] \<or> Path i \<noteq> [])"
  then have "checkOuts (RangeOrder E t)
      = Some (if Opt i \<noteq> [] then CannotSpecifyOptWithoutOut n
              else CannotSpecifyPathWithoutOut n)"
    using checkOuts_first[of pre i n post] by simp
  with h show "Build E f args
      = Inl (if Opt i \<noteq> [] then CannotSpecifyOptWithoutOut n
             else CannotSpecifyPathWithoutOut n)"
    using Build_checkOuts_Some by blast
next
  assume h: "Build E f args = Inr e \<and>
    set (PluginNameToPluginInfo e) \<subseteq> set (RangeOrder E (PluginNameToPluginInfo e))"
  then obtain f1 ps t s where
    "checkOuts (RangeOrder E t) = None" "PluginNameToPluginInfo e = t"
    using Build_InrD by blast
  with h checkOuts_None[of "RangeOrder E t"]
  show "\<forall>(m, j)\<in>set (PluginNameToPluginInfo e). Out j \<noteq> [] \<or> (Opt j = [] \<and> Path j = [])"
    by blast
qed

lemma example_buildRec_path:
  "parsePluginNameToPluginInfo f [] = Inr t \<Longrightarrow>
     buildRec E f [''a.proto''] [] {} = Inr (f, [''a.proto''], t, {})"
  by simp

lemma example_checkUnsupported:
  "checkUnsupported (newFlagsBuilder\<lparr>PluginPathValues := vs\<rparr>) = None"
  "checkUnsupported (setFlag newFlagsBuilder ''foo_opt'' v) = None"
  "checkUnsupported ((setFlag newFlagsBuilder ''foo_opt'' v)\<lparr>PluginPathValues := vs\<rparr>) = None"
  using setFlag_opt[of newFlagsBuilder "''foo''" v]
  by (simp_all add: checkUnsupported_def newFlagsBuilder_def)

lemma example_path_only:
  "parsePluginNameToPluginInfo
     (newFlagsBuilder\<lparr>PluginPathValues := [''protoc-gen-foo=/bin/foo'']\<rparr>) []
   = Inr [(''foo'', \<lparr>Out = [], Opt = [], Path = ''/bin/foo''\<rparr>)]"
  by (simp add: parsePlugin_paths_only SplitN2_def HasPrefix_def TrimPrefix_def
      getPluginInfo_def newPluginInfo_def)

lemma example_opt_only:
  "parsePluginNameToPluginInfo (setFlag newFlagsBuilder ''foo_opt'' ''x'') []
   = Inr [(''foo'', \<lparr>Out = [], Opt = ''x'', Path = []\<rparr>)]"
  by (simp add: parsePluginNameToPluginInfo_def example_setFlag_opt_fields parseOut_def
      parseOpt_def pluginFakeAt_def getPluginInfo_def newPluginInfo_def)

lemma example_opt_and_path:
  "parsePluginNameToPluginInfo
     ((setFlag newFlagsBuilder ''foo_opt'' ''x'')\<lparr>PluginPathValues := [''protoc-gen-foo=/bin/foo'']\<rparr>)
     []
   = Inr [(''foo'', \<lparr>Out = [], Opt = ''x'', Path = ''/bin/foo''\<rparr>)]"
  by (simp add: parsePluginNameToPluginInfo_def example_setFlag_opt_fields parseOut_def
      parseOpt_def pluginFakeAt_def getPluginInfo_def newPluginInfo_def SplitN2_def
      HasPrefix_def TrimPrefix_def)

lemma example_RangeOrder: "RangeOrder exampleRuntime t = t"
  by (simp add: exampleRuntime_def)

lemma example_out_only:
  "parsePluginNameToPluginInfo (setFlag newFlagsBuilder ''foo_out'' ''out/dir'') []
   = Inr [(''foo'', \<lparr>Out = ''out/dir'', Opt = [], Path = []\<rparr>)]"
  by (simp add: parsePluginNameToPluginInfo_def example_setFlag_out_fields parseOut_def
      parseOpt_def pluginFakeAt_def getPluginInfo_def newPluginInfo_def)

lemma example_Build_out:
  "Build exampleRuntime (setFlag newFlagsBuilder ''foo_out'' ''out/dir'') [''a.proto'']
   = Inr \<lparr>env.flags = \<lparr>IncludeDirPaths = [''.''], IncludeImports = False,
              IncludeSourceInfo = False, PrintFreeFieldNumbers = False, Output = [],
              ErrorFormat = ''gcc''\<rparr>,
           PluginNameToPluginInfo = [(''foo'', \<lparr>Out = ''out/dir'', Opt = [], Path = []\<rparr>)],
           FilePaths = [''a.proto'']\<rparr>"
proof -
  let ?f = "setFlag newFlagsBuilder ''foo_out'' ''out/dir''"
  have f: "?f = newFlagsBuilder\<lparr>pluginFake := [''out/dir''],
         pluginNameToValue := [(''foo'', \<lparr>OutIndex = 0, OptIndex = - 1\<rparr>)]\<rparr>"
    by (rule example_setFlag_out)
  have b: "buildRec exampleRuntime ?f [''a.proto''] [] {}
      = Inr (?f, [''a.proto''], [(''foo'', \<lparr>Out = ''out/dir'', Opt = [], Path = []\<rparr>)], {})"
    by (rule example_buildRec_path[OF example_out_only])
  have cu: "checkUnsupported ?f = None"
    unfolding f by (simp add: checkUnsupported_def newFlagsBuilder_def)
  have fl: "flags ?f = \<lparr>IncludeDirPaths = [], IncludeImports = False,
              IncludeSourceInfo = False, PrintFreeFieldNumbers = False, Output = [],
              ErrorFormat = []\<rparr>"
    unfolding f by (simp add: newFlagsBuilder_def)
  show ?thesis
    by (simp add: Build_def b cu fl example_RangeOrder defaultIncludeDirPaths_def
        defaultErrorFormat_def del: buildRec.simps)
qed

text \<open>
  A plugin with a path only, a plugin with options only, and a plugin with an output
  location, each before the one input file \<^verbatim>\<open>a.proto\<close>.
\<close>

theorem outputs_required_witness:
  "Build exampleRuntime (newFlagsBuilder\<lparr>PluginPathValues := [''protoc-gen-foo=/bin/foo'']\<rparr>)
     [''a.proto''] = Inl (CannotSpecifyPathWithoutOut ''foo'') \<and>
   Build exampleRuntime (setFlag newFlagsBuilder ''foo_opt'' ''x'') [''a.proto'']
     = Inl (CannotSpecifyOptWithoutOut ''foo'') \<and>
   list_all (\<lambda>(m, j). Out j \<noteq> [] \<or> (Opt j = [] \<and> Path j = []))
     [(''foo'', \<lparr>Out = ''out/dir'', Opt = [], Path = []\<rparr>)]"
proof (intro conjI)
  show "list_all (\<lambda>(m, j). Out j \<noteq> [] \<or> (Opt j = [] \<and> Path j = []))
     [(''foo'', \<lparr>Out = ''out/dir'', Opt = [], Path = []\<rparr>)]"
    using outputs_required[where E = exampleRuntime
        and f = "setFlag newFlagsBuilder ''foo_out'' ''out/dir''" and args = "[''a.proto'']"]
      example_Build_out
    by (simp add: example_RangeOrder)
next
  let ?f = "newFlagsBuilder\<lparr>PluginPathValues := [''protoc-gen-foo=/bin/foo'']\<rparr>"
  let ?i = "\<lparr>Out = [], Opt = [], Path = ''/bin/foo''\<rparr>"
  have "buildRec exampleRuntime ?f [''a.proto''] [] {} = Inr (?f, [''a.proto''], [(''foo'', ?i)], {})"
    by (rule example_buildRec_path[OF example_path_only])
  then show "Build exampleRuntime ?f [''a.proto''] = Inl (CannotSpecifyPathWithoutOut ''foo'')"
    using outputs_required[where E = exampleRuntime and f = ?f and args = "[''a.proto'']"
        and ?f1.0 = ?f and ps = "[''a.proto'']" and t = "[(''foo'', ?i)]" and s = "{}"
        and pre = "[]" and n = "''foo''" and i = ?i and post = "[]"]
    by (simp add: example_checkUnsupported example_RangeOrder)
next
  let ?f = "setFlag newFlagsBuilder ''foo_opt'' ''x''"
  let ?i = "\<lparr>Out = [], Opt = ''x'', Path = []\<rparr>"
  have "buildRec exampleRuntime ?f [''a.proto''] [] {} = Inr (?f, [''a.proto''], [(''foo'', ?i)], {})"
    by (rule example_buildRec_path[OF example_opt_only])
  then show "Build exampleRuntime ?f [''a.proto''] = Inl (CannotSpecifyOptWithoutOut ''foo'')"
    using outputs_required[where E = exampleRuntime and f = ?f and args = "[''a.proto'']"
        and ?f1.0 = ?f and ps = "[''a.proto'']" and t = "[(''foo'', ?i)]" and s = "{}"
        and pre = "[]" and n = "''foo''" and i = ?i and post = "[]"]
    by (simp add: example_checkUnsupported example_RangeOrder)
qed

text \<open>
  The claim as it stands fails for a plugin that has a path and options and no output
  location: the error is the one for options without an output.
\<close>

theorem outputs_required_counterexample:
  "parsePluginNameToPluginInfo
     ((setFlag newFlagsBuilder ''foo_opt'' ''x'')\<lparr>PluginPathValues := [''protoc-gen-foo=/bin/foo'']\<rparr>)
     []
   = Inr [(''foo'', \<lparr>Out = [], Opt = ''x'', Path = ''/bin/foo''\<rparr>)] \<and>
   Build exampleRuntime
     ((setFlag newFlagsBuilder ''foo_opt'' ''x'')\<lparr>PluginPathValues := [''protoc-gen-foo=/bin/foo'']\<rparr>)
     [''a.proto'']
   = Inl (CannotSpecifyOptWithoutOut ''foo'')"
proof -
  let ?f = "(setFlag newFlagsBuilder ''foo_opt'' ''x'')
              \<lparr>PluginPathValues := [''protoc-gen-foo=/bin/foo'']\<rparr>"
  let ?i = "\<lparr>Out = [], Opt = ''x'', Path = ''/bin/foo''\<rparr>"
  have "buildRec exampleRuntime ?f [''a.proto''] [] {} = Inr (?f, [''a.proto''], [(''foo'', ?i)], {})"
    by (rule example_buildRec_path[OF example_opt_and_path])
  then have "Build exampleRuntime ?f [''a.proto''] = Inl (CannotSpecifyOptWithoutOut ''foo'')"
    by (simp add: Build_def example_checkUnsupported example_RangeOrder)
  with example_opt_and_path show ?thesis by simp
qed

end
